theory Spec2Isabelle
  imports Main "HOL-Library.Word" "HOL-Library.List_Lexorder" "HOL-Library.Sublist"
begin

section \<open>Values, buffers and errors\<close>

text \<open>
  The engine of \<^verbatim>\<open>src/SQLite.js\<close> reads a page-structured database file. A Node
  \<^verbatim>\<open>Buffer\<close> is a list of bytes; a JavaScript string is a list of UTF-16 code units.
\<close>

type_synonym byte = "8 word"
type_synonym buffer = "byte list"
type_synonym jsstring = "nat list"

definition js :: "string \<Rightarrow> jsstring" where
  "js s = map of_char s"

text \<open>
  The values a column can hold after decoding, and \<^verbatim>\<open>undefined\<close>, which
  \<^verbatim>\<open>Map.get\<close> returns for a missing key. \<open>VNum\<close> is a JavaScript number (always an
  integer here), \<open>VBig\<close> a BigInt, \<open>VText\<close> a string, \<open>VBlob\<close> a Buffer.
\<close>

datatype jsval = VUndefined | VNull | VNum int | VBig nat | VText jsstring | VBlob buffer

text \<open>
  Every \<^verbatim>\<open>throw\<close> of the source and every failure of a platform call is a value:
  \<open>RangeError\<close> is a Buffer read outside the buffer, \<open>InvalidPageType\<close> is thrown by
  \<^verbatim>\<open>getPageHeaderSize\<close>, \<open>UnknownSerialType\<close> by \<^verbatim>\<open>readValue\<close> (with
  \<open>None\<close> for \<^verbatim>\<open>undefined\<close>), \<open>UnknownPageType\<close> by \<^verbatim>\<open>readTableRows\<close>,
  \<open>TableNotFound\<close> by \<^verbatim>\<open>handleSelectCommand\<close>. \<open>TypeError\<close> is a JavaScript
  type error, \<open>IOError\<close> a rejected file operation and \<open>ParseError\<close> a failure
  of the external SQL parser. \<open>CallStackExceeded\<close> is the range error of a call with
  more arguments than the engine accepts.
\<close>

datatype error =
    RangeError
  | InvalidPageType int
  | UnknownSerialType "nat option"
  | UnknownPageType int
  | TableNotFound jsstring
  | TypeError
  | IOError nat
  | ParseError nat
  | CallStackExceeded

subsection \<open>Buffer reads\<close>

text \<open>
  \<^verbatim>\<open>buf.readUIntBE(offset, byteLength)\<close> and its fixed-width variants throw when the
  bytes are not all inside the buffer; \<^verbatim>\<open>buf.subarray(start, end)\<close> clamps instead.
\<close>

definition readUIntBE :: "buffer \<Rightarrow> nat \<Rightarrow> nat \<Rightarrow> error + nat" where
  "readUIntBE buffer offset byteLength =
     (if offset + byteLength \<le> length buffer
      then Inr (foldl (\<lambda>acc b. acc * 256 + unat b) 0 (take byteLength (drop offset buffer)))
      else Inl RangeError)"

definition readUInt16BE :: "buffer \<Rightarrow> nat \<Rightarrow> error + nat" where
  "readUInt16BE buffer offset = readUIntBE buffer offset 2"

definition readUInt32BE :: "buffer \<Rightarrow> nat \<Rightarrow> error + nat" where
  "readUInt32BE buffer offset = readUIntBE buffer offset 4"

definition readBigUInt64BE :: "buffer \<Rightarrow> nat \<Rightarrow> error + nat" where
  "readBigUInt64BE buffer offset = readUIntBE buffer offset 8"

definition readInt8 :: "buffer \<Rightarrow> nat \<Rightarrow> error + int" where
  "readInt8 buffer offset =
     (if offset < length buffer then Inr (sint (buffer ! offset)) else Inl RangeError)"

definition subarray :: "buffer \<Rightarrow> nat \<Rightarrow> nat \<Rightarrow> buffer" where
  "subarray buffer start end = take (end - start) (drop start buffer)"

subsection \<open>Maps\<close>

text \<open>
  A JavaScript \<^verbatim>\<open>Map\<close> keeps its keys in insertion order; \<^verbatim>\<open>set\<close> on a key
  that is present replaces the value in place, \<^verbatim>\<open>get\<close> on a missing key is
  \<^verbatim>\<open>undefined\<close>.
\<close>

type_synonym row = "(jsstring \<times> jsval) list"

fun map_set :: "'k \<Rightarrow> 'v \<Rightarrow> ('k \<times> 'v) list \<Rightarrow> ('k \<times> 'v) list" where
  "map_set k v [] = [(k, v)]"
| "map_set k v ((k', v') # m) = (if k' = k then (k, v) # m else (k', v') # map_set k v m)"

definition map_get :: "('k \<times> jsval) list \<Rightarrow> 'k \<Rightarrow> jsval" where
  "map_get m k = (case map_of m k of None \<Rightarrow> VUndefined | Some v \<Rightarrow> v)"

section \<open>VarInt decoder\<close>

text \<open>
  Modelled from the spec: \<^verbatim>\<open>readVarInt\<close> of \<^verbatim>\<open>./varint\<close>, which is not among the
  sources. The spec: up to 9 bytes; for the first 8 bytes the high bit marks continuation
  and the low 7 bits are data, most significant byte first; if all 8 have their
  continuation bit set, a 9th byte contributes its full 8 bits; it fails only on a
  buffer-bounds overrun. The result is the value and the number of bytes consumed.
\<close>

fun varint_bytes :: "nat \<Rightarrow> byte list \<Rightarrow> nat \<Rightarrow> nat \<Rightarrow> error + (nat \<times> nat)" where
  "varint_bytes k [] acc used = Inl RangeError"
| "varint_bytes 0 (b # bs) acc used = Inr (acc * 256 + unat b, Suc used)"
| "varint_bytes (Suc k) (b # bs) acc used =
     (if unat b < 128 then Inr (acc * 128 + unat b, Suc used)
      else varint_bytes k bs (acc * 128 + (unat b - 128)) (Suc used))"

definition readVarInt :: "buffer \<Rightarrow> nat \<Rightarrow> error + (nat \<times> nat)" where
  "readVarInt buffer offset = varint_bytes 8 (drop offset buffer) 0 0"

section \<open>Page navigator and record codec\<close>

text \<open>\<^verbatim>\<open>getPageHeaderSize\<close>, lines 18 to 25.\<close>

definition getPageHeaderSize :: "int \<Rightarrow> error + nat" where
  "getPageHeaderSize pageType =
     (if pageType = 13 \<or> pageType = 10 then Inr 8
      else if pageType = 2 \<or> pageType = 5 then Inr 12
      else Inl (InvalidPageType pageType))"

text \<open>
  \<^verbatim>\<open>readValue\<close>, lines 51 to 69. The UTF-8 decoder behind
  \<^verbatim>\<open>value.toString('utf8')\<close> belongs to the platform and is the parameter \<open>utf8\<close>.
\<close>

definition readValue ::
  "(buffer \<Rightarrow> jsstring) \<Rightarrow> buffer \<Rightarrow> nat \<Rightarrow> nat \<Rightarrow> error + (jsval \<times> nat)" where
  "readValue utf8 buffer cursor serialType =
     (if serialType \<in> set [0, 8, 9, 12, 13] then Inr (VNull, cursor)
      else if serialType > 12 then
        (let dataTypeSize = (serialType - (if serialType mod 2 = 0 then 12 else 13)) div 2;
             value = subarray buffer cursor (cursor + dataTypeSize);
             newCursor = cursor + dataTypeSize
         in if serialType mod 2 = 0 then Inr (VBlob value, newCursor)
            else Inr (VText (utf8 value), newCursor))
      else if serialType = 1 then
        (case readInt8 buffer cursor of Inl e \<Rightarrow> Inl e | Inr v \<Rightarrow> Inr (VNum v, cursor + 1))
      else if serialType = 2 then
        (case readUInt16BE buffer cursor of Inl e \<Rightarrow> Inl e
         | Inr v \<Rightarrow> Inr (VNum (int v), cursor + 2))
      else if serialType = 3 then
        (case readUIntBE buffer cursor 3 of Inl e \<Rightarrow> Inl e
         | Inr v \<Rightarrow> Inr (VNum (int v), cursor + 3))
      else if serialType = 4 then
        (case readUInt32BE buffer cursor of Inl e \<Rightarrow> Inl e
         | Inr v \<Rightarrow> Inr (VNum (int v), cursor + 4))
      else if serialType = 5 then
        (case readUIntBE buffer cursor 6 of Inl e \<Rightarrow> Inl e
         | Inr v \<Rightarrow> Inr (VNum (int v), cursor + 6))
      else if serialType \<in> set [6, 7] then
        (case readBigUInt64BE buffer cursor of Inl e \<Rightarrow> Inl e
         | Inr v \<Rightarrow> Inr (VBig v, cursor + 8))
      else Inl (UnknownSerialType (Some serialType)))"

text \<open>
  \<^verbatim>\<open>parseRecord\<close>, lines 77 to 94: the first loop fills the map \<open>serialType\<close>
  (keyed by column name), the second decodes one value per column.
\<close>

fun readSerialTypes ::
  "buffer \<Rightarrow> jsstring list \<Rightarrow> nat \<Rightarrow> (jsstring \<times> nat) list
     \<Rightarrow> error + ((jsstring \<times> nat) list \<times> nat)" where
  "readSerialTypes buffer [] cursor serialType = Inr (serialType, cursor)"
| "readSerialTypes buffer (column # columns) cursor serialType =
     (case readVarInt buffer cursor of
        Inl e \<Rightarrow> Inl e
      | Inr (value, bytesRead) \<Rightarrow>
          readSerialTypes buffer columns (cursor + bytesRead) (map_set column value serialType))"

fun readValues ::
  "(buffer \<Rightarrow> jsstring) \<Rightarrow> buffer \<Rightarrow> (jsstring \<times> nat) list \<Rightarrow> jsstring list \<Rightarrow> nat \<Rightarrow> row
     \<Rightarrow> error + row" where
  "readValues utf8 buffer serialType [] cursor record = Inr record"
| "readValues utf8 buffer serialType (column # columns) cursor record =
     (case (case map_of serialType column of
              None \<Rightarrow> Inl (UnknownSerialType None)
            | Some t \<Rightarrow> readValue utf8 buffer cursor t) of
        Inl e \<Rightarrow> Inl e
      | Inr (value, newCursor) \<Rightarrow>
          readValues utf8 buffer serialType columns newCursor (map_set column value record))"

definition parseRecord :: "(buffer \<Rightarrow> jsstring) \<Rightarrow> buffer \<Rightarrow> jsstring list \<Rightarrow> error + row" where
  "parseRecord utf8 buffer columns =
     (case readVarInt buffer 0 of
        Inl e \<Rightarrow> Inl e
      | Inr (headerSize, bytesRead) \<Rightarrow>
          (case readSerialTypes buffer columns bytesRead [] of
             Inl e \<Rightarrow> Inl e
           | Inr (serialType, cursor) \<Rightarrow> readValues utf8 buffer serialType columns cursor []))"

text \<open>
  \<^verbatim>\<open>readCell\<close>, lines 113 to 136: the record size, the rowid on table pages only,
  and the record bytes.
\<close>

record cell =
  payload :: buffer
  rowId :: "nat option"

definition readCell :: "int \<Rightarrow> buffer \<Rightarrow> nat \<Rightarrow> error + cell" where
  "readCell pageType buffer cellPointer =
     (case readVarInt buffer cellPointer of
        Inl e \<Rightarrow> Inl e
      | Inr (recordSize, bytesRead) \<Rightarrow>
          (let cursor = cellPointer + bytesRead in
           if pageType = 13 \<or> pageType = 5 then
             (case readVarInt buffer cursor of
                Inl e \<Rightarrow> Inl e
              | Inr (value, rowIdBytesRead) \<Rightarrow>
                  (let startOfRecord = cursor + rowIdBytesRead in
                   Inr \<lparr>payload = subarray buffer startOfRecord (startOfRecord + recordSize),
                        rowId = Some value\<rparr>))
           else
             Inr \<lparr>payload = subarray buffer cursor (cursor + recordSize), rowId = None\<rparr>))"

section \<open>Table scanner\<close>

text \<open>
  \<^verbatim>\<open>parseTableLeafPage\<close>, lines 166 to 180. The loop runs \<open>numberOfCells\<close> times;
  \<open>leafRows\<close> is the loop from the cell pointer at \<open>cursor\<close> onwards. An identity
  column is used when it is truthy: given and not the empty string.
\<close>

definition truthy :: "jsstring option \<Rightarrow> bool" where
  "truthy identityColumn = (case identityColumn of None \<Rightarrow> False | Some c \<Rightarrow> c \<noteq> [])"

definition rowIdValue :: "nat option \<Rightarrow> jsval" where
  "rowIdValue r = (case r of None \<Rightarrow> VUndefined | Some n \<Rightarrow> VNum (int n))"

definition leafRow ::
  "(buffer \<Rightarrow> jsstring) \<Rightarrow> int \<Rightarrow> buffer \<Rightarrow> jsstring list \<Rightarrow> jsstring option \<Rightarrow> nat
     \<Rightarrow> error + row" where
  "leafRow utf8 pageType buffer columns identityColumn cursor =
     (case readUInt16BE buffer cursor of
        Inl e \<Rightarrow> Inl e
      | Inr cellPointer \<Rightarrow>
          (case readCell pageType buffer cellPointer of
             Inl e \<Rightarrow> Inl e
           | Inr c \<Rightarrow>
               (case parseRecord utf8 (payload c) columns of
                  Inl e \<Rightarrow> Inl e
                | Inr row \<Rightarrow>
                    Inr (if truthy identityColumn
                         then map_set (the identityColumn) (rowIdValue (rowId c)) row
                         else row))))"

fun leafRows ::
  "(buffer \<Rightarrow> jsstring) \<Rightarrow> int \<Rightarrow> nat \<Rightarrow> buffer \<Rightarrow> jsstring list \<Rightarrow> jsstring option \<Rightarrow> nat
     \<Rightarrow> error + row list" where
  "leafRows utf8 pageType 0 buffer columns identityColumn cursor = Inr []"
| "leafRows utf8 pageType (Suc n) buffer columns identityColumn cursor =
     (case leafRow utf8 pageType buffer columns identityColumn cursor of
        Inl e \<Rightarrow> Inl e
      | Inr row \<Rightarrow>
          (case leafRows utf8 pageType n buffer columns identityColumn (cursor + 2) of
             Inl e \<Rightarrow> Inl e
           | Inr rows \<Rightarrow> Inr (row # rows)))"

definition parseTableLeafPage ::
  "(buffer \<Rightarrow> jsstring) \<Rightarrow> int \<Rightarrow> nat \<Rightarrow> buffer \<Rightarrow> jsstring list \<Rightarrow> jsstring option
     \<Rightarrow> error + row list" where
  "parseTableLeafPage utf8 pageType numberOfCells buffer columns identityColumn =
     (case getPageHeaderSize pageType of
        Inl e \<Rightarrow> Inl e
      | Inr cursor \<Rightarrow> leafRows utf8 pageType numberOfCells buffer columns identityColumn cursor)"

text \<open>
  \<^verbatim>\<open>parseTableInteriorPage\<close>, lines 185 to 196: one child page number per cell
  pointer, read as a 4-byte big-endian integer at the cell.
\<close>

fun childPointersFrom :: "nat \<Rightarrow> buffer \<Rightarrow> nat \<Rightarrow> error + nat list" where
  "childPointersFrom 0 buffer cursor = Inr []"
| "childPointersFrom (Suc n) buffer cursor =
     (case readUInt16BE buffer cursor of
        Inl e \<Rightarrow> Inl e
      | Inr cellPointer \<Rightarrow>
          (case readUInt32BE buffer cellPointer of
             Inl e \<Rightarrow> Inl e
           | Inr childPointer \<Rightarrow>
               (case childPointersFrom n buffer (cursor + 2) of
                  Inl e \<Rightarrow> Inl e
                | Inr childPointers \<Rightarrow> Inr (childPointer # childPointers))))"

definition parseTableInteriorPage :: "int \<Rightarrow> nat \<Rightarrow> buffer \<Rightarrow> error + nat list" where
  "parseTableInteriorPage pageType numberOfCells buffer =
     (case getPageHeaderSize pageType of
        Inl e \<Rightarrow> Inl e
      | Inr cursor \<Rightarrow> childPointersFrom numberOfCells buffer cursor)"

text \<open>
  A file handle answers a positioned read: the position and the length give the bytes
  delivered, or the read is rejected. \<^verbatim>\<open>fileHandle.read\<close> fills a zeroed buffer of
  \<open>length\<close> bytes with them.
\<close>

type_synonym fileHandle = "int \<Rightarrow> nat \<Rightarrow> error + buffer"

definition fileRead :: "fileHandle \<Rightarrow> nat \<Rightarrow> int \<Rightarrow> error + buffer" where
  "fileRead fileHandle len position =
     (case fileHandle position len of
        Inl e \<Rightarrow> Inl e
      | Inr bytes \<Rightarrow> Inr (take len bytes @ replicate (len - length bytes) 0))"

text \<open>
  The page header as \<^verbatim>\<open>readTableRows\<close> reads it, lines 215 to 219, before it looks
  at the page type: each of these reads can throw.
\<close>

record pageHeader =
  hdrPageType :: int
  hdrStartOfFreeBlock :: nat
  hdrNumberOfCells :: nat
  hdrStartOfCellContentArea :: nat
  hdrRightMostPointer :: "nat option"

definition readPageHeader :: "buffer \<Rightarrow> error + pageHeader" where
  "readPageHeader buffer =
     (case readInt8 buffer 0 of
        Inl e \<Rightarrow> Inl e
      | Inr pt \<Rightarrow>
     (case readUInt16BE buffer 1 of
        Inl e \<Rightarrow> Inl e
      | Inr fb \<Rightarrow>
     (case readUInt16BE buffer 3 of
        Inl e \<Rightarrow> Inl e
      | Inr nc \<Rightarrow>
     (case readUInt16BE buffer 5 of
        Inl e \<Rightarrow> Inl e
      | Inr ca \<Rightarrow>
     (case (if pt = 2 \<or> pt = 5 then map_sum id Some (readUInt32BE buffer 8) else Inr None) of
        Inl e \<Rightarrow> Inl e
      | Inr rm \<Rightarrow>
          Inr \<lparr>hdrPageType = pt, hdrStartOfFreeBlock = fb, hdrNumberOfCells = nc,
               hdrStartOfCellContentArea = ca, hdrRightMostPointer = rm\<rparr>)))))"

text \<open>
  The child scans of an interior page, in order, as the loop of lines 234 to 236 joins
  them: the first child that fails or does not return decides the outcome. The rows of a
  child are added by \<^verbatim>\<open>rows.push(...childRows)\<close>, a call with one argument per row,
  which throws when there are more rows than the engine accepts as the arguments of a
  call; \<open>limit\<close> is that number.
\<close>

fun concatScans :: "nat \<Rightarrow> (error + row list) option list \<Rightarrow> (error + row list) option" where
  "concatScans limit [] = Some (Inr [])"
| "concatScans limit (None # rs) = None"
| "concatScans limit (Some (Inl e) # rs) = Some (Inl e)"
| "concatScans limit (Some (Inr rows) # rs) =
     (if limit < length rows then Some (Inl CallStackExceeded)
      else (case concatScans limit rs of
              None \<Rightarrow> None
            | Some (Inl e) \<Rightarrow> Some (Inl e)
            | Some (Inr rest) \<Rightarrow> Some (Inr (rows @ rest))))"

text \<open>
  \<^verbatim>\<open>readTableRows\<close>, lines 207 to 240. The recursion follows page numbers stored in
  the file, so it need not end; the first argument bounds its depth, and \<open>None\<close> says
  that the bound was reached. The second argument is the engine's limit on the arguments
  of a call.
\<close>

fun readTableRows ::
  "nat \<Rightarrow> nat \<Rightarrow> (buffer \<Rightarrow> jsstring) \<Rightarrow> fileHandle \<Rightarrow> int \<Rightarrow> nat \<Rightarrow> jsstring list
     \<Rightarrow> jsstring option \<Rightarrow> (error + row list) option" where
  "readTableRows 0 limit utf8 fileHandle page pageSize columns identityColumn = None"
| "readTableRows (Suc fuel) limit utf8 fileHandle page pageSize columns identityColumn =
     (case fileRead fileHandle pageSize ((page - 1) * int pageSize) of
        Inl e \<Rightarrow> Some (Inl e)
      | Inr buffer \<Rightarrow>
          (case readPageHeader buffer of
             Inl e \<Rightarrow> Some (Inl e)
           | Inr h \<Rightarrow>
               if hdrPageType h = 13 then
                 Some (parseTableLeafPage utf8 (hdrPageType h) (hdrNumberOfCells h) buffer
                         columns identityColumn)
               else if hdrPageType h = 5 then
                 (case parseTableInteriorPage (hdrPageType h) (hdrNumberOfCells h) buffer of
                    Inl e \<Rightarrow> Some (Inl e)
                  | Inr childPointers \<Rightarrow>
                      concatScans limit
                        (map (\<lambda>childPointer.
                                readTableRows fuel limit utf8 fileHandle (int childPointer)
                                  pageSize columns identityColumn)
                           childPointers))
               else Some (Inl (UnknownPageType (hdrPageType h)))))"

text \<open>
  A scan returns \<open>res\<close> when some depth is enough for it.
\<close>

definition scanReturns ::
  "nat \<Rightarrow> (buffer \<Rightarrow> jsstring) \<Rightarrow> fileHandle \<Rightarrow> int \<Rightarrow> nat \<Rightarrow> jsstring list \<Rightarrow> jsstring option
     \<Rightarrow> error + row list \<Rightarrow> bool" where
  "scanReturns limit utf8 fileHandle page pageSize columns identityColumn res =
     (\<exists>fuel. readTableRows fuel limit utf8 fileHandle page pageSize columns identityColumn
               = Some res)"

section \<open>Query executor\<close>

text \<open>
  \<^verbatim>\<open>===\<close> on the values above: equal values of the same kind, with no conversion
  between kinds. Two Buffers are \<^verbatim>\<open>===\<close> only when they are the same object, and a
  Buffer cut out of a page is never the object it is compared with.
\<close>

definition strictEquals :: "jsval \<Rightarrow> jsval \<Rightarrow> bool" where
  "strictEquals a b =
     (case (a, b) of
        (VUndefined, VUndefined) \<Rightarrow> True
      | (VNull, VNull) \<Rightarrow> True
      | (VNum x, VNum y) \<Rightarrow> x = y
      | (VBig x, VBig y) \<Rightarrow> x = y
      | (VText x, VText y) \<Rightarrow> x = y
      | _ \<Rightarrow> False)"

text \<open>
  \<^verbatim>\<open>applyFilter\<close>, lines 144 to 152. A where clause is a list of pairs of a column
  name and a literal; only the first pair is used.
\<close>

definition applyFilter :: "row list \<Rightarrow> (jsstring \<times> jsval) list \<Rightarrow> row list" where
  "applyFilter rows whereClause =
     (if length whereClause = 0 then rows
      else (case whereClause ! 0 of
              (filterColumn, filterValue) \<Rightarrow>
                filter (\<lambda>row. strictEquals (map_get row filterColumn) filterValue) rows))"

text \<open>
  Conversion to a string, as \<^verbatim>\<open>sort\<close>, \<^verbatim>\<open>join\<close> and template literals apply
  it. The decimal form is JavaScript's for integers below \<open>10 ^ 21\<close> in magnitude.
\<close>

fun decimal :: "nat \<Rightarrow> jsstring" where
  "decimal n = (if n < 10 then [48 + n] else decimal (n div 10) @ [48 + n mod 10])"

definition numberToString :: "int \<Rightarrow> jsstring" where
  "numberToString n = (if n < 0 then 45 # decimal (nat (- n)) else decimal (nat n))"

definition toString :: "(buffer \<Rightarrow> jsstring) \<Rightarrow> jsval \<Rightarrow> jsstring" where
  "toString utf8 v =
     (case v of
        VUndefined \<Rightarrow> js ''undefined''
      | VNull \<Rightarrow> js ''null''
      | VNum n \<Rightarrow> numberToString n
      | VBig n \<Rightarrow> decimal n
      | VText s \<Rightarrow> s
      | VBlob b \<Rightarrow> utf8 b)"

text \<open>
  \<^verbatim>\<open>Array.prototype.sort\<close> without a comparator: \<^verbatim>\<open>undefined\<close> goes last, the
  other elements are ordered by their strings, compared code unit by code unit, and the
  sort is stable. \<^verbatim>\<open>Array.prototype.join\<close> writes \<^verbatim>\<open>null\<close> and
  \<^verbatim>\<open>undefined\<close> as the empty string.
\<close>

definition arraySort :: "(buffer \<Rightarrow> jsstring) \<Rightarrow> jsval list \<Rightarrow> jsval list" where
  "arraySort utf8 xs =
     sort_key (toString utf8) (filter (\<lambda>x. x \<noteq> VUndefined) xs)
     @ filter (\<lambda>x. x = VUndefined) xs"

fun joinStrings :: "jsstring \<Rightarrow> jsstring list \<Rightarrow> jsstring" where
  "joinStrings sep [] = []"
| "joinStrings sep [x] = x"
| "joinStrings sep (x # y # ys) = x @ sep @ joinStrings sep (y # ys)"

definition joinElement :: "(buffer \<Rightarrow> jsstring) \<Rightarrow> jsval \<Rightarrow> jsstring" where
  "joinElement utf8 v = (if v = VUndefined \<or> v = VNull then [] else toString utf8 v)"

definition arrayJoin :: "(buffer \<Rightarrow> jsstring) \<Rightarrow> jsstring \<Rightarrow> jsval list \<Rightarrow> jsstring" where
  "arrayJoin utf8 sep xs = joinStrings sep (map (joinElement utf8) xs)"

text \<open>\<^verbatim>\<open>filterAndFormatListOfTables\<close>, lines 270 to 276.\<close>

definition filterAndFormatListOfTables :: "(buffer \<Rightarrow> jsstring) \<Rightarrow> row list \<Rightarrow> jsstring" where
  "filterAndFormatListOfTables utf8 tables =
     arrayJoin utf8 (js '' '')
       (arraySort utf8
          (filter (\<lambda>tableName. \<not> strictEquals tableName (VText (js ''sqlite_sequence'')))
             (map (\<lambda>table. map_get table (js ''tableName'')) tables)))"

text \<open>\<^verbatim>\<open>projectTableRows\<close>, lines 281 to 283.\<close>

definition projectTableRows ::
  "(buffer \<Rightarrow> jsstring) \<Rightarrow> row list \<Rightarrow> jsstring list \<Rightarrow> jsstring list" where
  "projectTableRows utf8 rows queryColumns =
     map (\<lambda>row. arrayJoin utf8 (js ''|'')
                  (map (\<lambda>queryColumn. map_get row queryColumn) queryColumns))
       rows"

section \<open>Schema catalog\<close>

text \<open>\<^verbatim>\<open>readDatabaseHeader\<close>, lines 32 to 42: the page size and the page count.\<close>

definition readDatabaseHeader :: "fileHandle \<Rightarrow> error + (nat \<times> nat)" where
  "readDatabaseHeader fileHandle =
     (case fileRead fileHandle 100 0 of
        Inl e \<Rightarrow> Inl e
      | Inr buffer \<Rightarrow>
          (case readUInt16BE buffer 16 of
             Inl e \<Rightarrow> Inl e
           | Inr pageSize \<Rightarrow>
               (case readUInt32BE buffer 28 of
                  Inl e \<Rightarrow> Inl e
                | Inr numberOfPages \<Rightarrow> Inr (pageSize, numberOfPages))))"

text \<open>
  \<^verbatim>\<open>parseTableSchema\<close>, lines 101 to 104, and \<^verbatim>\<open>readTableSchemas\<close>, lines 245
  to 265, whose loop is \<open>schemaRows\<close>.
\<close>

definition parseTableSchema :: "(buffer \<Rightarrow> jsstring) \<Rightarrow> buffer \<Rightarrow> error + row" where
  "parseTableSchema utf8 buffer =
     parseRecord utf8 buffer
       [js ''schemaType'', js ''schemaName'', js ''tableName'', js ''rootPage'',
        js ''schemaBody'']"

fun schemaRows ::
  "(buffer \<Rightarrow> jsstring) \<Rightarrow> int \<Rightarrow> nat \<Rightarrow> buffer \<Rightarrow> nat \<Rightarrow> error + row list" where
  "schemaRows utf8 pageType 0 buffer cursor = Inr []"
| "schemaRows utf8 pageType (Suc n) buffer cursor =
     (case readUInt16BE buffer cursor of
        Inl e \<Rightarrow> Inl e
      | Inr cellPointer \<Rightarrow>
          (case readCell pageType buffer cellPointer of
             Inl e \<Rightarrow> Inl e
           | Inr c \<Rightarrow>
               (case parseTableSchema utf8 (payload c) of
                  Inl e \<Rightarrow> Inl e
                | Inr table \<Rightarrow>
                    (case schemaRows utf8 pageType n buffer (cursor + 2) of
                       Inl e \<Rightarrow> Inl e
                     | Inr tables \<Rightarrow> Inr (table # tables)))))"

definition readTableSchemas ::
  "(buffer \<Rightarrow> jsstring) \<Rightarrow> fileHandle \<Rightarrow> nat \<Rightarrow> error + row list" where
  "readTableSchemas utf8 fileHandle pageSize =
     (case fileRead fileHandle pageSize 0 of
        Inl e \<Rightarrow> Inl e
      | Inr buffer \<Rightarrow>
          (case readInt8 buffer 100 of
             Inl e \<Rightarrow> Inl e
           | Inr pageType \<Rightarrow>
               (case readUInt16BE buffer (3 + 100) of
                  Inl e \<Rightarrow> Inl e
                | Inr numberOfCells \<Rightarrow>
                    (case getPageHeaderSize pageType of
                       Inl e \<Rightarrow> Inl e
                     | Inr pageHeaderSize \<Rightarrow>
                         schemaRows utf8 pageType numberOfCells buffer
                           (pageHeaderSize + 100)))))"

section \<open>Commands\<close>

text \<open>
  What the program takes from outside \<^verbatim>\<open>src/SQLite.js\<close>: the platform's UTF-8
  decoder and \<^verbatim>\<open>toUpperCase\<close>, \<^verbatim>\<open>open\<close> on the path of the database file, the
  two parsers of \<^verbatim>\<open>./sqlparser\<close>, which are not among the sources, the number
  JavaScript makes of a root page that is a string, a Buffer or \<^verbatim>\<open>undefined\<close> when
  it computes \<^verbatim>\<open>(page - 1) * pageSize\<close>, and the engine's limit on the arguments of
  a call.
\<close>

record query =
  queryColumns :: "jsstring list"
  queryTableName :: jsstring
  whereClause :: "(jsstring \<times> jsval) list"

record environment =
  utf8ToString :: "buffer \<Rightarrow> jsstring"
  toUpperCase :: "jsstring \<Rightarrow> jsstring"
  fsOpen :: "jsstring \<Rightarrow> error + fileHandle"
  parseSelectCommand :: "jsstring \<Rightarrow> error + query"
  parseColumns :: "jsval \<Rightarrow> error + (jsstring list \<times> jsstring option)"
  coerceRootPage :: "jsval \<Rightarrow> error + int"
  argumentLimit :: nat

text \<open>
  The root page as the arithmetic of \<^verbatim>\<open>readTableRows\<close> sees it: a number is
  itself, \<^verbatim>\<open>null\<close> counts as 0, and a BigInt mixed with a number throws.
\<close>

definition rootPageNumber :: "environment \<Rightarrow> jsval \<Rightarrow> error + int" where
  "rootPageNumber env v =
     (case v of
        VNum n \<Rightarrow> Inr n
      | VNull \<Rightarrow> Inr 0
      | VBig n \<Rightarrow> Inl TypeError
      | VUndefined \<Rightarrow> coerceRootPage env v
      | VText s \<Rightarrow> coerceRootPage env v
      | VBlob b \<Rightarrow> coerceRootPage env v)"

text \<open>
  \<^verbatim>\<open>handleSelectCommand\<close>, lines 289 to 306. The result is what it writes with
  \<^verbatim>\<open>console.log\<close>, one string per call.
\<close>

definition handleSelectCommand ::
  "nat \<Rightarrow> environment \<Rightarrow> jsstring \<Rightarrow> fileHandle \<Rightarrow> nat \<Rightarrow> row list
     \<Rightarrow> (error + jsstring list) option" where
  "handleSelectCommand fuel env command fileHandle pageSize tables =
     (case parseSelectCommand env command of
        Inl e \<Rightarrow> Some (Inl e)
      | Inr q \<Rightarrow>
          (case find (\<lambda>table. strictEquals (map_get table (js ''tableName''))
                                (VText (queryTableName q))) tables of
             None \<Rightarrow> Some (Inl (TableNotFound (queryTableName q)))
           | Some table \<Rightarrow>
               (case parseColumns env (map_get table (js ''schemaBody'')) of
                  Inl e \<Rightarrow> Some (Inl e)
                | Inr (columns, identityColumn) \<Rightarrow>
                    (case rootPageNumber env (map_get table (js ''rootPage'')) of
                       Inl e \<Rightarrow> Some (Inl e)
                     | Inr page \<Rightarrow>
                         (case readTableRows fuel (argumentLimit env) (utf8ToString env)
                                 fileHandle page pageSize columns identityColumn of
                            None \<Rightarrow> None
                          | Some (Inl e) \<Rightarrow> Some (Inl e)
                          | Some (Inr rows) \<Rightarrow>
                              (let filteredRows = applyFilter rows (whereClause q) in
                               if take 1 (queryColumns q) = [js ''count(*)'']
                               then Some (Inr [decimal (length filteredRows)])
                               else Some (Inr [joinStrings [10]
                                                 (projectTableRows (utf8ToString env)
                                                    filteredRows (queryColumns q))])))))))"

text \<open>
  \<^verbatim>\<open>main\<close>, lines 315 to 346, with debug mode off. \<open>commandBody\<close> is the body of
  the \<^verbatim>\<open>try\<close> block: what it logs, or the error it throws. The \<^verbatim>\<open>catch\<close> block
  writes the error to the error stream and returns; nothing in the file calls
  \<^verbatim>\<open>process.exit\<close>, sets \<^verbatim>\<open>process.exitCode\<close> or throws again, so the process
  ends with status 0 when \<^verbatim>\<open>main\<close> has returned. Closing the file handle is taken
  to succeed.
\<close>

record outcome =
  stdout :: "jsstring list"
  stderr :: "error list"
  exitStatus :: nat

definition commandBody ::
  "nat \<Rightarrow> environment \<Rightarrow> jsstring option \<Rightarrow> jsstring option
     \<Rightarrow> (error + jsstring list) option" where
  "commandBody fuel env databaseFile command =
     (case databaseFile of
        None \<Rightarrow> Some (Inl TypeError)
      | Some file \<Rightarrow>
          (case fsOpen env file of
             Inl e \<Rightarrow> Some (Inl e)
           | Inr fileHandle \<Rightarrow>
               (case readDatabaseHeader fileHandle of
                  Inl e \<Rightarrow> Some (Inl e)
                | Inr (pageSize, numberOfPages) \<Rightarrow>
                    (case readTableSchemas (utf8ToString env) fileHandle pageSize of
                       Inl e \<Rightarrow> Some (Inl e)
                     | Inr tables \<Rightarrow>
                         if command = Some (js ''.dbinfo'') then
                           Some (Inr [js ''database page size: '' @ decimal pageSize,
                                      js ''number of tables: '' @ decimal (length tables)])
                         else if command = Some (js ''.tables'') then
                           Some (Inr [filterAndFormatListOfTables (utf8ToString env) tables])
                         else
                           (case command of
                              None \<Rightarrow> Some (Inl TypeError)
                            | Some c \<Rightarrow>
                                if take 6 (toUpperCase env c) = js ''SELECT''
                                then handleSelectCommand fuel env c fileHandle pageSize tables
                                else Some (Inr []))))))"

definition main ::
  "nat \<Rightarrow> environment \<Rightarrow> jsstring option \<Rightarrow> jsstring option \<Rightarrow> outcome option" where
  "main fuel env databaseFile command =
     (case commandBody fuel env databaseFile command of
        None \<Rightarrow> None
      | Some (Inr logged) \<Rightarrow> Some \<lparr>stdout = logged, stderr = [], exitStatus = 0\<rparr>
      | Some (Inl err) \<Rightarrow> Some \<lparr>stdout = [], stderr = [err], exitStatus = 0\<rparr>)"

section \<open>Example files\<close>

text \<open>
  A file held in memory: a read at a position delivers the bytes from there, fewer at the
  end of the file. (Node reads at the handle's current position when the position is
  negative; the examples read at positions from 0 on.)
\<close>

definition openFile :: "buffer \<Rightarrow> fileHandle" where
  "openFile content position len = Inr (take len (drop (nat position) content))"

text \<open>Bytes below 128 decode to themselves under UTF-8; the examples hold no others.\<close>

definition asciiText :: "buffer \<Rightarrow> jsstring" where
  "asciiText bytes = map unat bytes"

text \<open>
  A leaf table page with one row \<open>(rid, ch)\<close> of a table
  \<open>(id INTEGER PRIMARY KEY, name TEXT)\<close>: the record holds null for \<open>id\<close> and the
  one-letter name. An interior table page with one cell (left child \<open>child\<close>, key 1) and
  a right-most child; one with three cells.
\<close>

definition leafPage :: "nat \<Rightarrow> nat \<Rightarrow> nat \<Rightarrow> buffer" where
  "leafPage pageSize rid ch =
     [0x0d, 0, 0, 0, 1, 0, 10, 0] @ [0, 10]
     @ [4, of_nat rid, 3, 0, 15, of_nat ch] @ replicate (pageSize - 16) 0"

definition interiorPage :: "nat \<Rightarrow> nat \<Rightarrow> nat \<Rightarrow> buffer" where
  "interiorPage pageSize child rightMost =
     [0x05, 0, 0, 0, 1, 0, 14, 0] @ [0, 0, 0, of_nat rightMost] @ [0, 14]
     @ [0, 0, 0, of_nat child, 1] @ replicate (pageSize - 19) 0"

definition interiorPage3 :: "nat \<Rightarrow> nat \<Rightarrow> nat \<Rightarrow> nat \<Rightarrow> nat \<Rightarrow> buffer" where
  "interiorPage3 pageSize c1 c2 c3 rightMost =
     [0x05, 0, 0, 0, 3, 0, 18, 0] @ [0, 0, 0, of_nat rightMost] @ [0, 18, 0, 23, 0, 28]
     @ [0, 0, 0, of_nat c1, 1] @ [0, 0, 0, of_nat c2, 2] @ [0, 0, 0, of_nat c3, 3]
     @ replicate (pageSize - 33) 0"

text \<open>
  Three pages of 32 bytes: the interior root page 1 with left child page 2 and right-most
  child page 3; rowid 1 is on page 2 and rowid 2 on page 3.
\<close>

definition twoLeafTable :: buffer where
  "twoLeafTable = interiorPage 32 2 3 @ leafPage 32 1 97 @ leafPage 32 2 98"

text \<open>
  Five pages of 40 bytes: the interior root page 1 with the children 2, 3 and 4 in its
  cells and right-most child 5; rowid \<open>k\<close> is on page \<open>k + 1\<close>.
\<close>

definition fourLeafTable :: buffer where
  "fourLeafTable =
     interiorPage3 40 2 3 4 5 @ leafPage 40 1 97 @ leafPage 40 2 98 @ leafPage 40 3 99
     @ leafPage 40 4 100"

text \<open>
  The five-page example with a first leaf of three rows, rowids 1 to 3, on page 2.
\<close>

definition leafPage3 :: "nat \<Rightarrow> nat \<Rightarrow> buffer" where
  "leafPage3 pageSize rid =
     [0x0d, 0, 0, 0, 3, 0, 14, 0] @ [0, 14, 0, 20, 0, 26]
     @ [4, of_nat rid, 3, 0, 15, 97] @ [4, of_nat (rid + 1), 3, 0, 15, 98]
     @ [4, of_nat (rid + 2), 3, 0, 15, 99] @ replicate (pageSize - 32) 0"

definition wideLeafTable :: buffer where
  "wideLeafTable =
     interiorPage3 40 2 3 4 5 @ leafPage3 40 1 @ leafPage 40 4 100 @ leafPage 40 5 101
     @ leafPage 40 6 102"

definition exampleColumns :: "jsstring list" where
  "exampleColumns = [js ''id'', js ''name'']"

text \<open>
  An engine that accepts 125000 arguments in a call. Evaluations keep the number as it
  is written.
\<close>

definition engineLimit :: nat where
  "engineLimit = 125000"

declare engineLimit_def [code del]





text \<open>
  A file of one 128-byte page whose catalog page type, at offset 100, is 0; and an
  environment that opens it under the name \<open>db\<close> and nothing else, with parsers that
  know one query, \<open>SELECT count(*) FROM apples\<close>.
\<close>

definition badCatalog :: buffer where
  "badCatalog = replicate 16 0 @ [0, 128] @ replicate 110 0"

definition emptyCatalog :: buffer where
  "emptyCatalog = replicate 16 0 @ [0, 128] @ replicate 82 0 @ [0x0d] @ replicate 27 0"

definition exampleEnv :: "buffer \<Rightarrow> environment" where
  "exampleEnv content =
     \<lparr>utf8ToString = asciiText,
      toUpperCase = (\<lambda>s. map (\<lambda>c. if 97 \<le> c \<and> c \<le> 122 then c - 32 else c) s),
      fsOpen = (\<lambda>name. if name = js ''db'' then Inr (openFile content) else Inl (IOError 2)),
      parseSelectCommand = (\<lambda>s. Inr \<lparr>queryColumns = [js ''count(*)''],
                                      queryTableName = js ''apples'', whereClause = []\<rparr>),
      parseColumns = (\<lambda>v. Inr (exampleColumns, Some (js ''id''))),
      coerceRootPage = (\<lambda>v. Inr 0),
      argumentLimit = engineLimit\<rparr>"

section \<open>Pages that differ in the right-most pointer only\<close>



section \<open>Children of an interior page\<close>

text \<open>
  The child page numbers that the cell pointer array of the page yields, when the page is
  read, its header is read, and it is an interior table page.
\<close>

definition interiorChildren :: "fileHandle \<Rightarrow> int \<Rightarrow> nat \<Rightarrow> nat list option" where
  "interiorChildren fileHandle page pageSize =
     (case fileRead fileHandle pageSize ((page - 1) * int pageSize) of
        Inl e \<Rightarrow> None
      | Inr buffer \<Rightarrow>
          (case readPageHeader buffer of
             Inl e \<Rightarrow> None
           | Inr h \<Rightarrow>
               if hdrPageType h = 5 then
                 (case parseTableInteriorPage (hdrPageType h) (hdrNumberOfCells h) buffer of
                    Inl e \<Rightarrow> None
                  | Inr childPointers \<Rightarrow> Some childPointers)
               else None))"

text \<open>
  The pages that are reached from a page through child pointers stored in cells: the page
  itself, and what is reached from a child that the cell pointer array of an interior
  page yields.
\<close>

inductive reachesByCells :: "fileHandle \<Rightarrow> nat \<Rightarrow> int \<Rightarrow> int \<Rightarrow> bool"
  for fileHandle :: fileHandle and pageSize :: nat where
  here: "reachesByCells fileHandle pageSize page page"
| child: "interiorChildren fileHandle page pageSize = Some childPointers \<Longrightarrow>
          childPointer \<in> set childPointers \<Longrightarrow>
          reachesByCells fileHandle pageSize (int childPointer) target \<Longrightarrow>
          reachesByCells fileHandle pageSize page target"

text \<open>
  What \<^verbatim>\<open>readTableRows\<close> finds at a page before it recurses: a failure, the rows
  of a leaf page, or the children of an interior page.
\<close>

datatype pageView = Failed error | Leaf "error + row list" | Interior "nat list"

definition viewPage ::
  "(buffer \<Rightarrow> jsstring) \<Rightarrow> fileHandle \<Rightarrow> int \<Rightarrow> nat \<Rightarrow> jsstring list \<Rightarrow> jsstring option
     \<Rightarrow> pageView" where
  "viewPage utf8 fileHandle page pageSize columns identityColumn =
     (case fileRead fileHandle pageSize ((page - 1) * int pageSize) of
        Inl e \<Rightarrow> Failed e
      | Inr buffer \<Rightarrow>
          (case readPageHeader buffer of
             Inl e \<Rightarrow> Failed e
           | Inr h \<Rightarrow>
               if hdrPageType h = 13 then
                 Leaf (parseTableLeafPage utf8 (hdrPageType h) (hdrNumberOfCells h) buffer
                         columns identityColumn)
               else if hdrPageType h = 5 then
                 (case parseTableInteriorPage (hdrPageType h) (hdrNumberOfCells h) buffer of
                    Inl e \<Rightarrow> Failed e
                  | Inr childPointers \<Rightarrow> Interior childPointers)
               else Failed (UnknownPageType (hdrPageType h))))"

definition isBlob :: "jsval \<Rightarrow> bool" where
  "isBlob v = (case v of VBlob b \<Rightarrow> True | _ \<Rightarrow> False)"


section \<open>Buffer reads and record values\<close>

lemma take2_drop:
  "cursor + 2 \<le> length (buffer :: 'a list) \<Longrightarrow>
     take 2 (drop cursor buffer) = [buffer ! cursor, buffer ! (cursor + 1)]"
  by (simp add: numeral_2_eq_2 take_Suc_conv_app_nth)

lemma readUInt16BE_bytes:
  "cursor + 2 \<le> length buffer \<Longrightarrow>
     readUInt16BE buffer cursor = Inr (unat (buffer ! cursor) * 256 + unat (buffer ! (cursor + 1)))"
  by (simp add: readUInt16BE_def readUIntBE_def take2_drop)

text \<open>
  Claim C3, as the code has it. For an even serial type from 14 on, with the bytes
  available at the cursor, \<^verbatim>\<open>readValue\<close> returns a blob of exactly
  \<open>(serialType - 12) / 2\<close> bytes, the bytes at the cursor; for an odd serial type from
  15 on, the text that the UTF-8 decoder makes of exactly \<open>(serialType - 13) / 2\<close>
  bytes; in both cases the cursor moves past them. The serial types 12 and 13 are on the
  list of line 52 and yield null with the cursor unchanged.
\<close>

theorem readValue_blob_text:
  "(14 \<le> serialType \<and> even serialType \<and> cursor + (serialType - 12) div 2 \<le> length buffer \<longrightarrow>
      (\<exists>bytes. readValue utf8 buffer cursor serialType =
                 Inr (VBlob bytes, cursor + (serialType - 12) div 2) \<and>
               bytes = take ((serialType - 12) div 2) (drop cursor buffer) \<and>
               length bytes = (serialType - 12) div 2)) \<and>
   (15 \<le> serialType \<and> odd serialType \<and> cursor + (serialType - 13) div 2 \<le> length buffer \<longrightarrow>
      (\<exists>bytes. readValue utf8 buffer cursor serialType =
                 Inr (VText (utf8 bytes), cursor + (serialType - 13) div 2) \<and>
               bytes = take ((serialType - 13) div 2) (drop cursor buffer) \<and>
               length bytes = (serialType - 13) div 2)) \<and>
   readValue utf8 buffer cursor 12 = Inr (VNull, cursor) \<and>
   readValue utf8 buffer cursor 13 = Inr (VNull, cursor)"
  by (auto simp add: readValue_def subarray_def Let_def)

text \<open>
  The theorem at serial type 14 (one blob byte) and 17 (two text bytes) of a four-byte
  buffer.
\<close>

theorem readValue_blob_text_witness:
  "readValue asciiText [1, 2, 104, 105] 1 14 = Inr (VBlob [2], 2) \<and>
   readValue asciiText [1, 2, 104, 105] 2 17 = Inr (VText [104, 105], 4)"
  using readValue_blob_text [of 14 1 "[1, 2, 104, 105]" asciiText]
        readValue_blob_text [of 17 2 "[1, 2, 104, 105]" asciiText]
  by (simp add: asciiText_def)

text \<open>
  Claim C3 as stated fails: the serial types 12 and 13 decode to null, not to an empty
  blob and an empty text; and at the end of the buffer serial type 14 gives a blob of no
  bytes, since \<^verbatim>\<open>subarray\<close> clamps.
\<close>

theorem readValue_12_13_counterexample:
  "readValue asciiText [] 0 12 = Inr (VNull, 0) \<and>
   readValue asciiText [] 0 13 = Inr (VNull, 0) \<and>
   readValue asciiText [] 0 14 = Inr (VBlob [], 1)"
  by (simp add: readValue_def subarray_def)

text \<open>
  Claim C4, as the code has it. With the bytes available at the cursor, serial type 1
  decodes to the signed value of the byte at the cursor, and serial type 2 to the
  unsigned 2-byte big-endian integer there, which \<^verbatim>\<open>readUInt16BE\<close> reads.
\<close>

theorem readValue_int8_uint16:
  "(cursor + 1 \<le> length buffer \<longrightarrow>
      readValue utf8 buffer cursor 1 = Inr (VNum (sint (buffer ! cursor)), cursor + 1)) \<and>
   (cursor + 2 \<le> length buffer \<longrightarrow>
      readValue utf8 buffer cursor 2 =
        Inr (VNum (int (unat (buffer ! cursor) * 256 + unat (buffer ! (cursor + 1)))), cursor + 2))"
  by (simp add: readValue_def readInt8_def readUInt16BE_bytes)

text \<open>The theorem on the bytes 80 FF FE: \<open>-128\<close> under type 1, 65534 under type 2.\<close>

theorem readValue_int8_uint16_witness:
  "readValue asciiText [0x80, 0xFF, 0xFE] 0 1 = Inr (VNum (- 128), 1) \<and>
   readValue asciiText [0x80, 0xFF, 0xFE] 1 2 = Inr (VNum 65534, 3)"
  using readValue_int8_uint16 [of 0 "[0x80, 0xFF, 0xFE]" asciiText]
        readValue_int8_uint16 [of 1 "[0x80, 0xFF, 0xFE]" asciiText]
  by simp

text \<open>
  Claim C4 as stated fails: the bytes FF FF under serial type 2 decode to 65535, not to
  \<open>-1\<close>.
\<close>

theorem readValue_type2_counterexample:
  "readValue asciiText [0xFF, 0xFF] 0 2 = Inr (VNum 65535, 2) \<and>
   readValue asciiText [0xFF, 0xFF] 0 2 \<noteq> Inr (VNum (- 1), 2)"
  by (simp add: readValue_def readUInt16BE_def readUIntBE_def)

section \<open>Page header size\<close>

text \<open>
  Claim C5, as the code has it. \<^verbatim>\<open>getPageHeaderSize\<close> returns 8 exactly for the leaf
  page types 13 and 10, 12 exactly for the interior page types 5 and 2, and throws for
  every other page type.
\<close>

theorem getPageHeaderSize_cases:
  "(getPageHeaderSize t = Inr 8) = (t = 13 \<or> t = 10) \<and>
   (getPageHeaderSize t = Inr 12) = (t = 5 \<or> t = 2) \<and>
   (t \<notin> {13, 10, 5, 2} \<longrightarrow> getPageHeaderSize t = Inl (InvalidPageType t))"
  by (simp add: getPageHeaderSize_def)

text \<open>The theorem at the table page types and at the byte 0.\<close>

theorem getPageHeaderSize_cases_witness:
  "getPageHeaderSize 13 = Inr 8 \<and> getPageHeaderSize 5 = Inr 12 \<and>
   getPageHeaderSize 0 = Inl (InvalidPageType 0)"
  using getPageHeaderSize_cases [of 13] getPageHeaderSize_cases [of 5]
        getPageHeaderSize_cases [of 0]
  by simp

text \<open>
  Claim C5 as stated fails: the index page types 0x0a and 0x02 have header sizes too.
\<close>

theorem getPageHeaderSize_index_counterexample:
  "getPageHeaderSize 10 = Inr 8 \<and> getPageHeaderSize 2 = Inr 12"
  by (simp add: getPageHeaderSize_def)

section \<open>The filter\<close>

lemma strictEquals_iff: "strictEquals a b = (a = b \<and> \<not> isBlob b)"
  by (cases a; cases b) (simp_all add: strictEquals_def isBlob_def)

text \<open>
  Claim C10. With an empty where clause \<^verbatim>\<open>applyFilter\<close> returns the rows unchanged.
  With the one-element where clause \<open>(column, literal)\<close> it returns, in their order,
  exactly the rows whose value at the column is the literal: the same kind of value and the
  same value, with no conversion between kinds (and a Buffer is never equal to a
  literal).
\<close>

theorem applyFilter_exact:
  "applyFilter rows [] = rows \<and>
   applyFilter rows [(column, literal)] =
     filter (\<lambda>row. map_get row column = literal \<and> \<not> isBlob literal) rows \<and>
   subseq (applyFilter rows [(column, literal)]) rows"
  by (simp add: applyFilter_def strictEquals_iff)

section \<open>The scan\<close>

lemma concatScans_mono:
  "concatScans limit (map f cs) = Some r
     \<Longrightarrow> (\<And>c x. c \<in> set cs \<Longrightarrow> f c = Some x \<Longrightarrow> g c = Some x)
     \<Longrightarrow> concatScans limit (map g cs) = Some r"
proof (induction cs arbitrary: r)
  case Nil
  then show ?case by simp
next
  case (Cons c cs)
  show ?case
  proof (cases "f c")
    case None
    with Cons.prems(1) show ?thesis by simp
  next
    case (Some x)
    then have g: "g c = Some x" using Cons.prems(2) by simp
    show ?thesis
    proof (cases x)
      case (Inl e)
      with Some g Cons.prems(1) show ?thesis by auto
    next
      case (Inr rows)
      show ?thesis
      proof (cases "limit < length rows")
        case True
        with Some g Inr Cons.prems(1) show ?thesis by simp
      next
        case False
        with Cons.prems(1) Some Inr obtain r' where
          r': "concatScans limit (map f cs) = Some r'"
          by (auto split: option.splits)
        have "concatScans limit (map g cs) = Some r'"
          using Cons.IH [OF r'] Cons.prems(2) by simp
        with r' Cons.prems(1) Some Inr g False show ?thesis by simp
      qed
    qed
  qed
qed

lemma readTableRows_view:
  "readTableRows (Suc fuel) limit utf8 fh page pageSize columns idc =
     (case viewPage utf8 fh page pageSize columns idc of
        Failed e \<Rightarrow> Some (Inl e)
      | Leaf r \<Rightarrow> Some r
      | Interior cs \<Rightarrow>
          concatScans limit
            (map (\<lambda>c. readTableRows fuel limit utf8 fh (int c) pageSize columns idc) cs))"
  by (simp add: viewPage_def split: sum.splits)

lemma readTableRows_mono:
  "readTableRows fuel limit utf8 fh page pageSize columns idc = Some r \<Longrightarrow> fuel \<le> fuel'
     \<Longrightarrow> readTableRows fuel' limit utf8 fh page pageSize columns idc = Some r"
proof (induction fuel arbitrary: fuel' page r)
  case 0
  then show ?case by simp
next
  case (Suc m)
  from Suc.prems(2) obtain k where k: "fuel' = Suc k" and mk: "m \<le> k"
    by (cases fuel') auto
  have step:
    "concatScans limit
       (map (\<lambda>c. readTableRows k limit utf8 fh (int c) pageSize columns idc) cs) = Some r"
    if "concatScans limit
          (map (\<lambda>c. readTableRows m limit utf8 fh (int c) pageSize columns idc) cs) = Some r"
    for cs
    using that by (rule concatScans_mono) (rule Suc.IH [OF _ mk])
  show ?case
  proof (cases "viewPage utf8 fh page pageSize columns idc")
    case (Failed e)
    with Suc.prems(1) show ?thesis unfolding k readTableRows_view by simp
  next
    case (Leaf x)
    with Suc.prems(1) show ?thesis unfolding k readTableRows_view by simp
  next
    case (Interior cs)
    with Suc.prems(1) show ?thesis unfolding k readTableRows_view by (simp add: step)
  qed
qed

lemma scanReturns_unique:
  assumes "scanReturns limit utf8 fh page pageSize columns idc a"
    and "scanReturns limit utf8 fh page pageSize columns idc b"
  shows "a = b"
proof -
  from assms obtain m n where
    m: "readTableRows m limit utf8 fh page pageSize columns idc = Some a" and
    n: "readTableRows n limit utf8 fh page pageSize columns idc = Some b"
    by (auto simp: scanReturns_def)
  have "readTableRows (max m n) limit utf8 fh page pageSize columns idc = Some a"
    by (rule readTableRows_mono [OF m]) simp
  moreover have "readTableRows (max m n) limit utf8 fh page pageSize columns idc = Some b"
    by (rule readTableRows_mono [OF n]) simp
  ultimately show ?thesis by simp
qed

lemma scanReturnsI:
  "readTableRows fuel limit utf8 fh page pageSize columns idc = Some res
     \<Longrightarrow> scanReturns limit utf8 fh page pageSize columns idc res"
  unfolding scanReturns_def by blast

lemma concatScans_all:
  "list_all2 (\<lambda>c rows. f c = Some (Inr rows) \<and> length rows \<le> limit) cs rs
     \<Longrightarrow> concatScans limit (map f cs) = Some (Inr (concat rs))"
  by (induction cs rs rule: list_all2_induct) auto

lemma common_fuel:
  "list_all2 (\<lambda>c rows. scanReturns limit utf8 fh (int c) pageSize columns idc (Inr rows)
                         \<and> length rows \<le> limit) cs rs
     \<Longrightarrow> \<exists>fuel. list_all2 (\<lambda>c rows. readTableRows fuel limit utf8 fh (int c) pageSize columns idc
                                       = Some (Inr rows) \<and> length rows \<le> limit) cs rs"
proof (induction cs rs rule: list_all2_induct)
  case Nil
  then show ?case by simp
next
  case (Cons c cs rows rs)
  from Cons.IH obtain m where
    m: "list_all2 (\<lambda>c rows. readTableRows m limit utf8 fh (int c) pageSize columns idc
                              = Some (Inr rows) \<and> length rows \<le> limit) cs rs" by blast
  from Cons.hyps(1) obtain n where
    n: "readTableRows n limit utf8 fh (int c) pageSize columns idc = Some (Inr rows)"
    and len: "length rows \<le> limit"
    by (auto simp: scanReturns_def)
  have "readTableRows (max m n) limit utf8 fh (int c) pageSize columns idc = Some (Inr rows)"
    by (rule readTableRows_mono [OF n]) simp
  moreover have
    "list_all2 (\<lambda>c rows. readTableRows (max m n) limit utf8 fh (int c) pageSize columns idc
                           = Some (Inr rows) \<and> length rows \<le> limit) cs rs"
  proof (rule list_all2_mono [OF m])
    fix c' rows'
    assume "readTableRows m limit utf8 fh (int c') pageSize columns idc = Some (Inr rows')
              \<and> length rows' \<le> limit"
    then show "readTableRows (max m n) limit utf8 fh (int c') pageSize columns idc
                 = Some (Inr rows') \<and> length rows' \<le> limit"
      using readTableRows_mono [of m limit utf8 fh "int c'" pageSize columns idc
              "Inr rows'" "max m n"]
      by simp
  qed
  ultimately show ?case using len by auto
qed

lemma viewPage_interior:
  "interiorChildren fh page pageSize = Some cs \<Longrightarrow>
     viewPage utf8 fh page pageSize columns idc = Interior cs"
  by (auto simp: interiorChildren_def viewPage_def split: sum.splits if_splits)


lemma readTableRows_interior:
  "interiorChildren fh page pageSize = Some cs \<Longrightarrow>
     readTableRows (Suc fuel) limit utf8 fh page pageSize columns idc =
       concatScans limit
         (map (\<lambda>c. readTableRows fuel limit utf8 fh (int c) pageSize columns idc) cs)"
  unfolding readTableRows_view by (simp add: viewPage_interior)

text \<open>
  The concatenation law, within the engine's limit: when the scans of the children in the
  cells of an interior page return, each no more rows than a call takes arguments, the
  scan of the page returns their rows joined in the order of the cells.
\<close>

lemma scanReturns_interior:
  assumes "interiorChildren fh page pageSize = Some cs"
    and "list_all2 (\<lambda>c rows. scanReturns limit utf8 fh (int c) pageSize columns idc (Inr rows)
                              \<and> length rows \<le> limit) cs rs"
  shows "scanReturns limit utf8 fh page pageSize columns idc (Inr (concat rs))"
proof -
  from common_fuel [OF assms(2)] obtain fuel where
    "list_all2 (\<lambda>c rows. readTableRows fuel limit utf8 fh (int c) pageSize columns idc
                            = Some (Inr rows) \<and> length rows \<le> limit) cs rs" ..
  then have
    "concatScans limit
       (map (\<lambda>c. readTableRows fuel limit utf8 fh (int c) pageSize columns idc) cs)
       = Some (Inr (concat rs))"
    by (rule concatScans_all)
  then have "readTableRows (Suc fuel) limit utf8 fh page pageSize columns idc
               = Some (Inr (concat rs))"
    by (simp only: readTableRows_interior [OF assms(1)])
  then show ?thesis by (rule scanReturnsI)
qed

lemma scan_concatenation_within_limit:
  assumes "interiorChildren fileHandle page pageSize = Some [c1, c2, c3]"
    and "scanReturns limit utf8 fileHandle (int c1) pageSize columns identityColumn (Inr rows1)"
    and "scanReturns limit utf8 fileHandle (int c2) pageSize columns identityColumn (Inr rows2)"
    and "scanReturns limit utf8 fileHandle (int c3) pageSize columns identityColumn (Inr rows3)"
    and "length rows1 \<le> limit" and "length rows2 \<le> limit" and "length rows3 \<le> limit"
  shows "scanReturns limit utf8 fileHandle page pageSize columns identityColumn res
           \<longleftrightarrow> res = Inr (rows1 @ rows2 @ rows3)"
proof -
  have "list_all2 (\<lambda>c rows. scanReturns limit utf8 fileHandle (int c) pageSize columns
                              identityColumn (Inr rows) \<and> length rows \<le> limit)
          [c1, c2, c3] [rows1, rows2, rows3]"
    using assms(2-7) by simp
  from scanReturns_interior [OF assms(1) this]
  have r: "scanReturns limit utf8 fileHandle page pageSize columns identityColumn
             (Inr (rows1 @ rows2 @ rows3))" by simp
  show ?thesis
  proof
    assume "scanReturns limit utf8 fileHandle page pageSize columns identityColumn res"
    from scanReturns_unique [OF this r] show "res = Inr (rows1 @ rows2 @ rows3)" .
  next
    assume "res = Inr (rows1 @ rows2 @ rows3)"
    with r show "scanReturns limit utf8 fileHandle page pageSize columns identityColumn res"
      by simp
  qed
qed

text \<open>
  Claim C9, where the code departs from it. When the cell pointer array of an interior
  table page yields the children \<open>[c1, c2, c3]\<close> and the scan of the first child
  returns more rows than the engine accepts as the arguments of a call, the scan of the
  page does not return the concatenation of the child scans: \<^verbatim>\<open>rows.push\<close> at line
  235 throws, and the scan fails with that range error.
\<close>

theorem scan_child_over_limit:
  assumes "interiorChildren fileHandle page pageSize = Some [c1, c2, c3]"
    and "scanReturns limit utf8 fileHandle (int c1) pageSize columns identityColumn (Inr rows1)"
    and "limit < length rows1"
  shows "scanReturns limit utf8 fileHandle page pageSize columns identityColumn res
           \<longleftrightarrow> res = Inl CallStackExceeded"
proof -
  from assms(2) obtain fuel where
    "readTableRows fuel limit utf8 fileHandle (int c1) pageSize columns identityColumn
       = Some (Inr rows1)"
    by (auto simp: scanReturns_def)
  with assms(3) have
    "readTableRows (Suc fuel) limit utf8 fileHandle page pageSize columns identityColumn
       = Some (Inl CallStackExceeded)"
    by (simp add: readTableRows_interior [OF assms(1)] del: readTableRows.simps)
  then have r: "scanReturns limit utf8 fileHandle page pageSize columns identityColumn
                  (Inl CallStackExceeded)"
    by (rule scanReturnsI)
  show ?thesis
  proof
    assume "scanReturns limit utf8 fileHandle page pageSize columns identityColumn res"
    from scanReturns_unique [OF this r] show "res = Inl CallStackExceeded" .
  next
    assume "res = Inl CallStackExceeded"
    with r show "scanReturns limit utf8 fileHandle page pageSize columns identityColumn res"
      by simp
  qed
qed

text \<open>
  The theorem on the five-page example with the wide first leaf, under an engine that
  accepts two arguments in a call: the first child returns three rows, and the scan of the
  root fails.
\<close>

theorem scan_child_over_limit_witness:
  "scanReturns 2 asciiText (openFile wideLeafTable) 1 40 exampleColumns (Some (js ''id''))
     (Inl CallStackExceeded)"
proof -
  have c: "interiorChildren (openFile wideLeafTable) 1 40 = Some [2, 3, 4]"
    by code_simp
  have s1: "scanReturns 2 asciiText (openFile wideLeafTable) (int 2) 40 exampleColumns
              (Some (js ''id''))
              (Inr [[(js ''id'', VNum 1), (js ''name'', VText (js ''a''))],
                    [(js ''id'', VNum 2), (js ''name'', VText (js ''b''))],
                    [(js ''id'', VNum 3), (js ''name'', VText (js ''c''))]])"
    by (rule scanReturnsI [of 1]) code_simp
  have l: "2 < length [[(js ''id'', VNum 1), (js ''name'', VText (js ''a''))],
                       [(js ''id'', VNum 2), (js ''name'', VText (js ''b''))],
                       [(js ''id'', VNum 3), (js ''name'', VText (js ''c''))]]"
    by simp
  show ?thesis
    using scan_child_over_limit [OF c s1 l] by simp
qed

lemma concatScans_limit_mono:
  "concatScans limit (map f cs) = Some (Inr rows)
     \<Longrightarrow> (\<And>c x. c \<in> set cs \<Longrightarrow> f c = Some (Inr x) \<Longrightarrow> g c = Some (Inr x))
     \<Longrightarrow> limit \<le> limit'
     \<Longrightarrow> concatScans limit' (map g cs) = Some (Inr rows)"
proof (induction cs arbitrary: rows)
  case Nil
  then show ?case by simp
next
  case (Cons c cs)
  have "\<exists>rs rest. f c = Some (Inr rs) \<and> length rs \<le> limit \<and>
                  concatScans limit (map f cs) = Some (Inr rest) \<and> rows = rs @ rest"
  proof (cases "f c")
    case None
    with Cons.prems(1) show ?thesis by simp
  next
    case (Some a)
    with Cons.prems(1) show ?thesis
      by (cases a) (auto split: sum.splits option.splits if_splits)
  qed
  then obtain rs rest where
    rs: "f c = Some (Inr rs)" and len: "length rs \<le> limit" and
    rest: "concatScans limit (map f cs) = Some (Inr rest)" and
    rows: "rows = rs @ rest"
    by blast
  have g: "g c = Some (Inr rs)" using Cons.prems(2) rs by simp
  have "concatScans limit' (map g cs) = Some (Inr rest)"
    using Cons.IH [OF rest _ Cons.prems(3)] Cons.prems(2) by simp
  with g len Cons.prems(3) rows show ?case by simp
qed

lemma readTableRows_limit_mono:
  "readTableRows fuel limit utf8 fh page pageSize columns idc = Some (Inr rows)
     \<Longrightarrow> limit \<le> limit'
     \<Longrightarrow> readTableRows fuel limit' utf8 fh page pageSize columns idc = Some (Inr rows)"
proof (induction fuel arbitrary: page rows)
  case 0
  then show ?case by simp
next
  case (Suc fuel)
  show ?case
  proof (cases "viewPage utf8 fh page pageSize columns idc")
    case (Failed e)
    with Suc.prems(1) show ?thesis unfolding readTableRows_view by simp
  next
    case (Leaf x)
    with Suc.prems(1) show ?thesis unfolding readTableRows_view by simp
  next
    case (Interior cs)
    with Suc.prems(1) have
      "concatScans limit
         (map (\<lambda>c. readTableRows fuel limit utf8 fh (int c) pageSize columns idc) cs)
         = Some (Inr rows)"
      unfolding readTableRows_view by simp
    then have
      "concatScans limit'
         (map (\<lambda>c. readTableRows fuel limit' utf8 fh (int c) pageSize columns idc) cs)
         = Some (Inr rows)"
      by (rule concatScans_limit_mono) (rule Suc.IH, assumption, rule Suc.prems(2),
            rule Suc.prems(2))
    with Interior show ?thesis unfolding readTableRows_view by simp
  qed
qed

lemma engineLimit_positive: "1 \<le> engineLimit"
  by (simp add: engineLimit_def)

text \<open>
  Claim C1 on the three-page example, a table of two rows whose root is an interior page
  with two leaf children: the left child, page 2, is in the only cell, and page 3 is the
  right-most child. On every engine that accepts an argument in a call, the scan from
  the root returns the row of page 2 alone; the row with rowid 2, which a scan of page 3
  returns, is missing from it.
\<close>

theorem twoLeafTable_scan:
  assumes "1 \<le> limit"
  shows
  "readTableRows 2 limit asciiText (openFile twoLeafTable) 1 32 exampleColumns
     (Some (js ''id'')) =
     Some (Inr [[(js ''id'', VNum 1), (js ''name'', VText (js ''a''))]]) \<and>
   readTableRows 1 limit asciiText (openFile twoLeafTable) 3 32 exampleColumns
     (Some (js ''id'')) =
     Some (Inr [[(js ''id'', VNum 2), (js ''name'', VText (js ''b''))]]) \<and>
   interiorChildren (openFile twoLeafTable) 1 32 = Some [2]"
proof -
  have a: "readTableRows 2 1 asciiText (openFile twoLeafTable) 1 32 exampleColumns
             (Some (js ''id'')) =
           Some (Inr [[(js ''id'', VNum 1), (js ''name'', VText (js ''a''))]])"
    by code_simp
  have b: "readTableRows 1 1 asciiText (openFile twoLeafTable) 3 32 exampleColumns
             (Some (js ''id'')) =
           Some (Inr [[(js ''id'', VNum 2), (js ''name'', VText (js ''b''))]])"
    by code_simp
  have c: "interiorChildren (openFile twoLeafTable) 1 32 = Some [2]"
    by code_simp
  from readTableRows_limit_mono [OF a assms] readTableRows_limit_mono [OF b assms] c
  show ?thesis by (intro conjI)
qed

text \<open>The theorem under an engine that accepts 125000 arguments.\<close>

theorem twoLeafTable_scan_witness:
  "readTableRows 2 engineLimit asciiText (openFile twoLeafTable) 1 32 exampleColumns
     (Some (js ''id'')) =
     Some (Inr [[(js ''id'', VNum 1), (js ''name'', VText (js ''a''))]]) \<and>
   readTableRows 1 engineLimit asciiText (openFile twoLeafTable) 3 32 exampleColumns
     (Some (js ''id'')) =
     Some (Inr [[(js ''id'', VNum 2), (js ''name'', VText (js ''b''))]]) \<and>
   interiorChildren (openFile twoLeafTable) 1 32 = Some [2]"
  by (rule twoLeafTable_scan [OF engineLimit_positive])

section \<open>Fatal errors\<close>

lemma main_exitStatus: "main fuel env databaseFile command = Some out \<Longrightarrow> exitStatus out = 0"
  by (auto simp: main_def split: option.splits sum.splits)

text \<open>
  Claim C6 at three failing commands: a catalog page of unknown type, a table that is not
  in the catalog, and a file that cannot be opened. Each error reaches the
  \<^verbatim>\<open>catch\<close> block of \<^verbatim>\<open>main\<close> and is written to the error stream, and the
  process ends with status 0.
\<close>

theorem main_fatal_error_status:
  "main 1 (exampleEnv badCatalog) (Some (js ''db'')) (Some (js ''.tables'')) =
     Some \<lparr>stdout = [], stderr = [InvalidPageType 0], exitStatus = 0\<rparr> \<and>
   main 1 (exampleEnv emptyCatalog) (Some (js ''db'')) (Some (js ''SELECT count(*) FROM apples'')) =
     Some \<lparr>stdout = [], stderr = [TableNotFound (js ''apples'')], exitStatus = 0\<rparr> \<and>
   main 1 (exampleEnv emptyCatalog) (Some (js ''nodb'')) (Some (js ''.tables'')) =
     Some \<lparr>stdout = [], stderr = [IOError 2], exitStatus = 0\<rparr>"
  by code_simp

section \<open>The rows of a scan\<close>

lemma concatScans_member:
  "concatScans limit (map f cs) = Some (Inr rows) \<Longrightarrow> r \<in> set rows
     \<Longrightarrow> \<exists>c rs. c \<in> set cs \<and> f c = Some (Inr rs) \<and> r \<in> set rs"
proof (induction cs arbitrary: rows)
  case Nil
  then show ?case by simp
next
  case (Cons c cs)
  have "\<exists>rs rest. f c = Some (Inr rs) \<and> concatScans limit (map f cs) = Some (Inr rest) \<and>
                  rows = rs @ rest"
  proof (cases "f c")
    case None
    with Cons.prems(1) show ?thesis by simp
  next
    case (Some a)
    with Cons.prems(1) show ?thesis
      by (cases a) (auto split: sum.splits option.splits if_splits)
  qed
  then obtain rs rest where
    rs: "f c = Some (Inr rs)" and
    rest: "concatScans limit (map f cs) = Some (Inr rest)" and
    rows: "rows = rs @ rest"
    by blast
  show ?case
  proof (cases "r \<in> set rs")
    case True
    with rs show ?thesis by auto
  next
    case False
    with Cons.prems(2) rows have "r \<in> set rest" by simp
    from Cons.IH [OF rest this] show ?thesis by auto
  qed
qed

lemma viewPage_Leaf:
  "viewPage utf8 fh page pageSize columns idc = Leaf res \<Longrightarrow>
     \<exists>buffer n. fileRead fh pageSize ((page - 1) * int pageSize) = Inr buffer \<and>
                res = parseTableLeafPage utf8 13 n buffer columns idc"
  by (auto simp: viewPage_def split: sum.splits if_splits)


section \<open>The right-most pointer\<close>












section \<open>The identity column\<close>

lemma map_get_map_set: "map_get (map_set k v m) k = v"
  by (induction m) (auto simp: map_get_def)

lemma readCell_table_rowId:
  "readCell 13 buffer cellPointer = Inr cl \<Longrightarrow> \<exists>n. rowId cl = Some n"
  by (auto simp: readCell_def Let_def split: sum.splits prod.splits)

lemma leafRow_identity:
  assumes "leafRow utf8 13 buffer columns (Some c) cursor = Inr r" and "c \<noteq> []"
  shows "\<exists>cellPointer cl decoded n.
           readCell 13 buffer cellPointer = Inr cl \<and> rowId cl = Some n \<and>
           parseRecord utf8 (payload cl) columns = Inr decoded \<and>
           r = map_set c (VNum (int n)) decoded"
proof -
  from assms obtain cellPointer cl decoded where
    cl: "readCell 13 buffer cellPointer = Inr cl" and
    rec: "parseRecord utf8 (payload cl) columns = Inr decoded" and
    r: "r = map_set c (rowIdValue (rowId cl)) decoded"
    by (auto simp: leafRow_def truthy_def split: sum.splits)
  from readCell_table_rowId [OF cl] obtain n where n: "rowId cl = Some n" ..
  with cl rec r show ?thesis by (auto simp: rowIdValue_def)
qed

lemma leafRows_member:
  "leafRows utf8 t n buffer columns idc cursor = Inr rows \<Longrightarrow> r \<in> set rows
     \<Longrightarrow> \<exists>cur. leafRow utf8 t buffer columns idc cur = Inr r"
proof (induction n arbitrary: cursor rows)
  case 0
  then show ?case by simp
next
  case (Suc n)
  from Suc.prems(1) obtain r0 rest where
    r0: "leafRow utf8 t buffer columns idc cursor = Inr r0" and
    rest: "leafRows utf8 t n buffer columns idc (cursor + 2) = Inr rest" and
    rows: "rows = r0 # rest"
    by (auto split: sum.splits)
  show ?case
  proof (cases "r = r0")
    case True
    with r0 show ?thesis by blast
  next
    case False
    with Suc.prems(2) rows have "r \<in> set rest" by simp
    from Suc.IH [OF rest this] show ?thesis .
  qed
qed

text \<open>
  Claim C8. When the scan is given an identity column (one that is not the empty
  string), every row it returns comes from a cell of a page of the file: it is the
  record of that cell with the identity column set to the rowid of the cell, and its
  value at the identity column is that rowid, a number, not the null of the record.
\<close>

theorem scan_identity_column:
  assumes "readTableRows fuel limit utf8 fileHandle page pageSize columns (Some c) = Some (Inr rows)"
    and "c \<noteq> []" and "r \<in> set rows"
  shows "\<exists>leaf buffer cellPointer cl decoded n.
           fileRead fileHandle pageSize ((leaf - 1) * int pageSize) = Inr buffer \<and>
           readCell 13 buffer cellPointer = Inr cl \<and> rowId cl = Some n \<and>
           parseRecord utf8 (payload cl) columns = Inr decoded \<and>
           r = map_set c (VNum (int n)) decoded \<and>
           map_get r c = VNum (int n)"
  using assms(1,3)
proof (induction fuel arbitrary: page rows)
  case 0
  then show ?case by simp
next
  case (Suc fuel)
  show ?case
  proof (cases "viewPage utf8 fileHandle page pageSize columns (Some c)")
    case (Failed e)
    with Suc.prems(1) show ?thesis unfolding readTableRows_view by simp
  next
    case (Leaf res)
    from viewPage_Leaf [OF Leaf] obtain buffer n where
      buf: "fileRead fileHandle pageSize ((page - 1) * int pageSize) = Inr buffer" and
      res: "res = parseTableLeafPage utf8 13 n buffer columns (Some c)" by blast
    from Suc.prems(1) Leaf res have
      "leafRows utf8 13 n buffer columns (Some c) 8 = Inr rows"
      unfolding readTableRows_view
      by (simp add: parseTableLeafPage_def getPageHeaderSize_def)
    from leafRows_member [OF this Suc.prems(2)] obtain cur where
      "leafRow utf8 13 buffer columns (Some c) cur = Inr r" ..
    from leafRow_identity [OF this assms(2)] obtain cellPointer cl decoded k where
      f: "readCell 13 buffer cellPointer = Inr cl" "rowId cl = Some k"
         "parseRecord utf8 (payload cl) columns = Inr decoded"
         "r = map_set c (VNum (int k)) decoded"
      by blast
    then have "map_get r c = VNum (int k)" by (simp add: map_get_map_set)
    with buf f show ?thesis by blast
  next
    case (Interior cs)
    with Suc.prems(1) have
      "concatScans limit
         (map (\<lambda>ch. readTableRows fuel limit utf8 fileHandle (int ch) pageSize columns
                       (Some c)) cs) = Some (Inr rows)"
      unfolding readTableRows_view by simp
    from concatScans_member [OF this Suc.prems(2)] obtain ch rs where
      "readTableRows fuel limit utf8 fileHandle (int ch) pageSize columns (Some c) = Some (Inr rs)"
      and "r \<in> set rs" by blast
    then show ?thesis by (rule Suc.IH)
  qed
qed

text \<open>
  The theorem on the second row of the scan of the five-page example.
\<close>

theorem scan_identity_column_witness:
  "\<exists>leaf buffer cellPointer cl decoded n.
     fileRead (openFile fourLeafTable) 40 ((leaf - 1) * int 40) = Inr buffer \<and>
     readCell 13 buffer cellPointer = Inr cl \<and> rowId cl = Some n \<and>
     parseRecord asciiText (payload cl) exampleColumns = Inr decoded \<and>
     [(js ''id'', VNum 2), (js ''name'', VText (js ''b''))] = map_set (js ''id'') (VNum (int n)) decoded \<and>
     map_get [(js ''id'', VNum 2), (js ''name'', VText (js ''b''))] (js ''id'') = VNum (int n)"
proof -
  have "readTableRows 2 1 asciiText (openFile fourLeafTable) 1 40 exampleColumns
          (Some (js ''id''))
          = Some (Inr [[(js ''id'', VNum 1), (js ''name'', VText (js ''a''))],
                       [(js ''id'', VNum 2), (js ''name'', VText (js ''b''))],
                       [(js ''id'', VNum 3), (js ''name'', VText (js ''c''))]])"
    by code_simp
  then have s: "readTableRows 2 engineLimit asciiText (openFile fourLeafTable) 1 40
                  exampleColumns (Some (js ''id''))
             = Some (Inr [[(js ''id'', VNum 1), (js ''name'', VText (js ''a''))],
                          [(js ''id'', VNum 2), (js ''name'', VText (js ''b''))],
                          [(js ''id'', VNum 3), (js ''name'', VText (js ''c''))]])"
    using engineLimit_positive by (rule readTableRows_limit_mono)
  have n: "js ''id'' \<noteq> []" by (simp add: js_def)
  show ?thesis
    by (rule scan_identity_column [OF s n]) simp
qed

section \<open>The table listing\<close>









end
